theory Spec2Isabelle
  imports Main "HOL-Library.Word"
begin

section \<open>The stateless execution validator of zk-pig (src/generator/execute.go)\<close>

text \<open>
  The Go file runs one block of a prover input through a fresh in-memory database:
  \<^verbatim>\<open>Execute\<close> checks the block list, tags the context and calls \<^verbatim>\<open>execute\<close>, which runs
  \<^verbatim>\<open>prepareContext\<close>, \<^verbatim>\<open>preparePreState\<close>, \<^verbatim>\<open>prepareExecParams\<close> and \<^verbatim>\<open>execEVM\<close> in this
  order. The embedding below follows the file function by function.

  The functions of other packages the file calls (header hashing, the chain constructor, the
  three database writers, the state constructor, the block conversion and the EVM executor) are
  not part of the file. They are taken as parameters, collected in the record \<open>deps\<close>; every
  theorem holds for all of them unless it says otherwise.

  Go pointers that the file dereferences without a check (the input, its chain configuration,
  the blocks, their headers and numbers) are modelled as plain values. The ancestor headers are
  pointers the file does compare with nil, so they are \<open>header option\<close>.
\<close>

subsection \<open>Data\<close>

type_synonym bytes = "8 word list"

text \<open>\<^verbatim>\<open>common.Hash\<close>, 32 bytes.\<close>

type_synonym hash = "256 word"

text \<open>The fields of \<^verbatim>\<open>types.Header\<close> this development talks about, with the rest as raw bytes.\<close>

record header =
  ParentHash :: hash
  Root :: hash
  Number :: int
  Extra :: bytes

record block =
  Header :: header
  Transactions :: "bytes list"

text \<open>\<^verbatim>\<open>params.ChainConfig\<close>: the chain id is a \<^verbatim>\<open>*big.Int\<close>, which may be nil.\<close>

record chainConfig =
  ChainID :: "int option"

record witness =
  Ancestors :: "header option list"
  Codes :: "bytes list"
  State :: "bytes list"

record proverInput =
  ChainConfig :: chainConfig
  Blocks :: "block list"
  Witness :: witness

text \<open>\<^verbatim>\<open>core.ProcessResult\<close>.\<close>

record processResult =
  Receipts :: "bytes list"
  Logs :: "bytes list"
  GasUsed :: "64 word"

subsection \<open>Errors and tags\<close>

text \<open>
  An error made by \<^verbatim>\<open>fmt.Errorf(format, args...)\<close> is kept as the format string with its
  arguments, so that a wrapped error and a printed hash stay visible in the value.
\<close>

datatype error = Errorf string "fmtArg list"
  and fmtArg = ErrArg error | HashArg hash

text \<open>
  The values given to \<^verbatim>\<open>tag.Key(k)\<close>: \<^verbatim>\<open>.String(x.String())\<close> of a big integer,
  \<^verbatim>\<open>.Int64(n)\<close>, and \<^verbatim>\<open>.String(h.Hex())\<close> of a hash. The context is the list of its tags.
\<close>

datatype tagValue = BigIntString "int option" | Int64Value "64 word" | HashHexString hash

datatype tag = Component string | Tag string tagValue

type_synonym Context = "tag list"

definition WithComponent :: "Context \<Rightarrow> string \<Rightarrow> Context" where
  "WithComponent ctx c = ctx @ [Component c]"

definition WithTags :: "Context \<Rightarrow> tag list \<Rightarrow> Context" where
  "WithTags ctx ts = ctx @ ts"

subsection \<open>Databases, the world and its trace\<close>

text \<open>
  A memory database is a list of key/value pairs. \<^verbatim>\<open>rawdb.NewMemoryDatabase()\<close> allocates a
  new one; the world holds every database allocated so far, addressed by its index, and the
  trace of what has happened: log lines and the calls that create, fill or read a database.
\<close>

type_synonym store = "(bytes \<times> bytes) list"

type_synonym addr = nat

text \<open>
  \<^verbatim>\<open>core.HeaderChain\<close> and \<^verbatim>\<open>state.StateDB\<close> (as made by \<^verbatim>\<open>state.New(root, db)\<close>). In Go
  both also point to the database they were built on, which is always the database of the
  executor context; the model keeps that pointer in the executor context only, and gives the
  contents of that database to whoever reads through the chain or the state.
\<close>

record headerChain =
  hcConfig :: chainConfig

record stateDB =
  originalRoot :: hash

record vmConfig =
  StatelessSelfValidation :: bool

text \<open>
  \<^verbatim>\<open>evm.ExecParams\<close>. The field \<^verbatim>\<open>State\<close> is called \<open>PreState\<close> here, since the witness
  already has a field \<open>State\<close>.
\<close>

record execParams =
  VMConfig :: vmConfig
  Block :: block
  Validate :: bool
  Chain :: headerChain
  PreState :: stateDB

text \<open>
  The events of the trace: a log line at its level; \<open>DbCreated a\<close>, the database \<open>a\<close> has
  been allocated; \<open>NewChainCalled a\<close>, the chain constructor has been called on it and has
  returned, with or without an error; \<open>HeadersWritten a\<close>, \<open>CodesWritten a\<close> and
  \<open>NodesWritten a\<close>, a writer has returned; \<open>StateNewCalled r a\<close>, \<^verbatim>\<open>state.New\<close> has been
  called at the root \<open>r\<close> on it and has returned, with or without an error; \<open>EngineRun p\<close>,
  the engine has been run on the parameters \<open>p\<close> and has returned.
\<close>

datatype event =
    LogDebug string
  | LogInfo string
  | LogError string error
  | DbCreated addr
  | NewChainCalled addr
  | HeadersWritten addr
  | CodesWritten addr
  | NodesWritten addr
  | StateNewCalled hash addr
  | EngineRun execParams

record world =
  dbs :: "store list"
  trace :: "event list"

definition emit :: "event \<Rightarrow> world \<Rightarrow> world" where
  "emit e w = w\<lparr>trace := trace w @ [e]\<rparr>"

definition NewMemoryDatabase :: "world \<Rightarrow> addr \<times> world" where
  "NewMemoryDatabase w = (length (dbs w), emit (DbCreated (length (dbs w))) (w\<lparr>dbs := dbs w @ [[]]\<rparr>))"

definition readDb :: "world \<Rightarrow> addr \<Rightarrow> store" where
  "readDb w a = dbs w ! a"

definition writeDb :: "addr \<Rightarrow> store \<Rightarrow> world \<Rightarrow> world" where
  "writeDb a s w = w\<lparr>dbs := (dbs w)[a := s]\<rparr>"

text \<open>A call either returns or panics; Go has no other way out of a function.\<close>

datatype 'a run = Panicked | Returned 'a

subsection \<open>The functions of other packages\<close>

text \<open>
  Each is a function of its arguments and of the contents of the database it is handed, and
  gives back the new contents when it may write.
  \<^item> \<open>HeaderHash\<close>: \<^verbatim>\<open>(*types.Header).Hash\<close>.
  \<^item> \<open>NewChain\<close>: \<^verbatim>\<open>ethereum.NewChain(cfg, stateDB)\<close>, an error or success.
  \<^item> \<open>WriteHeaders\<close>: \<^verbatim>\<open>ethereum.WriteHeaders(db, headers...)\<close>. It receives the ancestor
    pointers as they are, nil entries included, before the file has looked at them; \<open>None\<close>
    is a panic.
  \<^item> \<open>WriteCodes\<close>, \<open>WriteNodesToHashDB\<close>: the two other writers.
  \<^item> \<open>StateNew\<close>: \<^verbatim>\<open>state.New(root, db)\<close>, which opens the trie at \<open>root\<close>; an error or
    success.
  \<^item> \<open>BlockOf\<close>: the method \<^verbatim>\<open>Block()\<close> of an input block, the block in the engine's type.
  \<^item> \<open>EvmExecute\<close>: \<^verbatim>\<open>Execute\<close> of the decorated \<^verbatim>\<open>evm.NewExecutor()\<close>, which returns a
    result pointer and an error, each of which may be nil.
\<close>

record deps =
  HeaderHash :: "header \<Rightarrow> hash"
  NewChain :: "chainConfig \<Rightarrow> store \<Rightarrow> error option \<times> store"
  WriteHeaders :: "store \<Rightarrow> header option list \<Rightarrow> store option"
  WriteCodes :: "store \<Rightarrow> bytes list \<Rightarrow> store"
  WriteNodesToHashDB :: "store \<Rightarrow> bytes list \<Rightarrow> store"
  StateNew :: "hash \<Rightarrow> store \<Rightarrow> error option"
  BlockOf :: "block \<Rightarrow> block"
  EvmExecute :: "Context \<Rightarrow> execParams \<Rightarrow> store \<Rightarrow> (processResult option \<times> error option) \<times> store"

subsection \<open>execute.go\<close>

record executorContext =
  ctx :: Context
  stateDB :: addr
  hc :: headerChain

definition prepareContext ::
  "deps \<Rightarrow> Context \<Rightarrow> proverInput \<Rightarrow> world \<Rightarrow> (error + executorContext) \<times> world" where
  "prepareContext d c inputs w =
     (let w1 = emit (LogDebug ''Prepare context...'') w;
          (a, w2) = NewMemoryDatabase w1;
          (err, s) = NewChain d (ChainConfig inputs) (readDb w2 a);
          w3 = emit (NewChainCalled a) (writeDb a s w2)
      in if err \<noteq> None
         then (Inl (Errorf ''failed to create chain: %v'' [ErrArg (the err)]), w3)
         else (Inr \<lparr>ctx = c, stateDB = a, hc = \<lparr>hcConfig = ChainConfig inputs\<rparr>\<rparr>, w3))"

text \<open>The two loops copy the code and node blobs into new slices, one \<^verbatim>\<open>append\<close> per blob.\<close>

definition preparePreState ::
  "deps \<Rightarrow> executorContext \<Rightarrow> proverInput \<Rightarrow> world \<Rightarrow> unit run \<times> world" where
  "preparePreState d ectx inputs w =
     (let w1 = emit (LogInfo ''Prepare pre-state...'') w;
          a = stateDB ectx
      in case WriteHeaders d (readDb w1 a) (Ancestors (Witness inputs)) of
           None \<Rightarrow> (Panicked, w1)
         | Some s1 \<Rightarrow>
             (let w2 = emit (HeadersWritten a) (writeDb a s1 w1);
                  codes = foldl (\<lambda>acc code. acc @ [code]) [] (Codes (Witness inputs));
                  w3 = emit (CodesWritten a) (writeDb a (WriteCodes d (readDb w2 a) codes) w2);
                  nodes = foldl (\<lambda>acc node. acc @ [node]) [] (State (Witness inputs));
                  w4 = emit (NodesWritten a) (writeDb a (WriteNodesToHashDB d (readDb w3 a) nodes) w3)
              in (Returned (), w4)))"

definition prepareExecParams ::
  "deps \<Rightarrow> executorContext \<Rightarrow> proverInput \<Rightarrow> world \<Rightarrow> (error + execParams) \<times> world" where
  "prepareExecParams d ectx inputs w =
     (if length (Blocks inputs) = 0 then (Inl (Errorf ''no blocks provided'' []), w)
      else
        let w1 = emit (LogDebug ''Prepare execution parameters...'') w
        in if length (Ancestors (Witness inputs)) = 0
           then (Inl (Errorf ''no ancestors provided'' []), w1)
           else
             case Ancestors (Witness inputs) ! 0 of
               None \<Rightarrow> (Inl (Errorf ''first ancestor must be the parent of the first block'' []), w1)
             | Some parentHeader \<Rightarrow>
                 if HeaderHash d parentHeader = HeaderHash d (Header (Blocks inputs ! 0))
                 then (Inl (Errorf ''first ancestor must be the parent of the first block'' []), w1)
                 else
                   let err = StateNew d (Root parentHeader) (readDb w1 (stateDB ectx));
                       w2 = emit (StateNewCalled (Root parentHeader) (stateDB ectx)) w1
                   in if err \<noteq> None
                      then (Inl (Errorf ''failed to create pre-state from parent root %v: %v''
                                   [HashArg (Root parentHeader), ErrArg (the err)]), w2)
                      else (Inr \<lparr>VMConfig = \<lparr>StatelessSelfValidation = True\<rparr>,
                                 Block = BlockOf d (Blocks inputs ! 0),
                                 Validate = True,
                                 Chain = hc ectx,
                                 PreState = \<lparr>originalRoot = Root parentHeader\<rparr>\<rparr>, w2))"

text \<open>
  The engine reads and writes the database through the state and the chain of its parameters;
  both were built on the database of the executor context, so it is given the contents of that
  one.
\<close>

definition execEVM ::
  "deps \<Rightarrow> executorContext \<Rightarrow> execParams \<Rightarrow> world \<Rightarrow> (processResult option \<times> error option) \<times> world" where
  "execEVM d ectx params w =
     (let w1 = emit (LogInfo ''Execute EVM...'') w;
          a = stateDB ectx;
          ((res, err), s) = EvmExecute d (ctx ectx) params (readDb w1 a);
          w2 = emit (EngineRun params) (writeDb a s w1)
      in if err \<noteq> None
         then ((res, Some (Errorf ''failed to execute block: %v'' [ErrArg (the err)])), w2)
         else ((res, None), w2))"

definition execute ::
  "deps \<Rightarrow> Context \<Rightarrow> proverInput \<Rightarrow> world \<Rightarrow> (processResult option \<times> error option) run \<times> world" where
  "execute d c inputs w =
     (let w0 = emit (LogInfo ''Process provable execution...'') w
      in case prepareContext d c inputs w0 of
           (Inl err, w1) \<Rightarrow>
             (Returned (None, Some (Errorf ''failed to prepare execution context: %v'' [ErrArg err])), w1)
         | (Inr execCtx, w1) \<Rightarrow>
             (case preparePreState d execCtx inputs w1 of
                (Panicked, w2) \<Rightarrow> (Panicked, w2)
              | (Returned u, w2) \<Rightarrow>
                  (case prepareExecParams d execCtx inputs w2 of
                     (Inl err, w3) \<Rightarrow>
                       (Returned (None, Some (Errorf ''failed to prepare execution exec params: %v'' [ErrArg err])), w3)
                   | (Inr params, w3) \<Rightarrow>
                       (case execEVM d execCtx params w3 of (r, w4) \<Rightarrow> (Returned r, w4)))))"

definition Execute ::
  "deps \<Rightarrow> Context \<Rightarrow> proverInput \<Rightarrow> world \<Rightarrow> (processResult option \<times> error option) run \<times> world" where
  "Execute d c inputs w =
     (if length (Blocks inputs) = 0 then (Returned (None, Some (Errorf ''no blocks provided'' [])), w)
      else
        let block = Blocks inputs ! 0;
            c1 = WithComponent c ''execute'';
            c2 = WithTags c1
                   [Tag ''chain.id'' (BigIntString (ChainID (ChainConfig inputs))),
                    Tag ''block.number'' (Int64Value (word_of_int (Number (Header block)))),
                    Tag ''block.hash'' (HashHexString (HeaderHash d (Header block)))]
        in case execute d c2 inputs w of
             (Panicked, w1) \<Rightarrow> (Panicked, w1)
           | (Returned (res, err), w1) \<Rightarrow>
               if err \<noteq> None
               then (Returned (res, err), emit (LogError ''Provable execution failed'' (the err)) w1)
               else (Returned (res, err), emit (LogInfo ''Provable execution succeeded'') w1))"

subsection \<open>Derived notions\<close>

text \<open>The context \<open>Execute\<close> passes on: the caller's, with the component and the three tags.\<close>

definition taggedContext :: "deps \<Rightarrow> Context \<Rightarrow> proverInput \<Rightarrow> Context" where
  "taggedContext d c inputs =
     c @ [Component ''execute'',
          Tag ''chain.id'' (BigIntString (ChainID (ChainConfig inputs))),
          Tag ''block.number'' (Int64Value (word_of_int (Number (Header (Blocks inputs ! 0))))),
          Tag ''block.hash'' (HashHexString (HeaderHash d (Header (Blocks inputs ! 0))))]"

text \<open>
  The contents of the new database once \<open>prepareContext\<close> and \<open>preparePreState\<close> have run on
  it: \<open>None\<close> when the chain constructor fails or the header writer panics.
\<close>

definition loadedStore :: "deps \<Rightarrow> proverInput \<Rightarrow> store option" where
  "loadedStore d inputs =
     (case NewChain d (ChainConfig inputs) [] of
        (Some e, s) \<Rightarrow> None
      | (None, s0) \<Rightarrow>
          (case WriteHeaders d s0 (Ancestors (Witness inputs)) of
             None \<Rightarrow> None
           | Some s1 \<Rightarrow>
               Some (WriteNodesToHashDB d (WriteCodes d s1 (Codes (Witness inputs)))
                       (State (Witness inputs)))))"

text \<open>What a run has added to the trace.\<close>

definition newEvents :: "world \<Rightarrow> world \<Rightarrow> event list" where
  "newEvents w w' = drop (length (trace w)) (trace w')"

text \<open>The executor context \<open>prepareContext\<close> builds in world \<open>w\<close> for the tagged context.\<close>

definition builtContext :: "deps \<Rightarrow> Context \<Rightarrow> proverInput \<Rightarrow> world \<Rightarrow> executorContext" where
  "builtContext d c inputs w =
     \<lparr>ctx = taggedContext d c inputs, stateDB = length (dbs w),
      hc = \<lparr>hcConfig = ChainConfig inputs\<rparr>\<rparr>"



text \<open>
  Modelled from the spec: the executor of the package \<^verbatim>\<open>evm\<close> (the stateless execution
  driver, with its tagging and logging decorators) is not part of the file. The spec says of it
  (section 4.5): "On success, returns the ExecutionResult; on any of the above, returns no usable
  result and a typed error." So of the result and the error it returns, exactly one is nil.
\<close>

definition driverContract :: "deps \<Rightarrow> bool" where
  "driverContract d =
     (\<forall>c p s. case fst (EvmExecute d c p s) of
                 (Some r, None) \<Rightarrow> True
               | (None, Some e) \<Rightarrow> True
               | _ \<Rightarrow> False)"


subsection \<open>An instance for running examples\<close>

text \<open>
  A small instance of the functions of the other packages, to run the file on concrete inputs.
  A header hashes to its number; the chain constructor rejects a configuration without a chain
  id; the header writer panics on a nil header; a blob is stored under itself; a trie opens at
  a root when the one-byte blob of that root is in the database; the engine accepts a block
  whose state root is the root of the pre-state (as an empty block does) and rejects any other.
\<close>

definition toyDeps :: deps where
  "toyDeps =
     \<lparr>HeaderHash = (\<lambda>h. word_of_int (Number h)),
      NewChain = (\<lambda>cfg s. (if ChainID cfg = None then Some (Errorf ''missing chain id'' []) else None, s)),
      WriteHeaders = (\<lambda>s hs. if None \<in> set hs then None
                               else Some (s @ map (\<lambda>h. ([0x68, word_of_int (Number (the h))], Extra (the h))) hs)),
      WriteCodes = (\<lambda>s cs. s @ map (\<lambda>c. (c, c)) cs),
      WriteNodesToHashDB = (\<lambda>s ns. s @ map (\<lambda>n. (n, n)) ns),
      StateNew = (\<lambda>r s. if [ucast r] \<in> fst ` set s then None
                          else Some (Errorf ''missing trie node'' [HashArg r])),
      BlockOf = (\<lambda>b. b),
      EvmExecute = (\<lambda>c p s.
         (if Root (Header (Block p)) = originalRoot (PreState p)
          then (Some \<lparr>Receipts = [], Logs = [], GasUsed = 0\<rparr>, None)
          else (None, Some (Errorf ''invalid merkle root'' [])), s))\<rparr>"

text \<open>
  The same instance with an engine that, when it rejects a block, returns the result of
  processing it beside the error.
\<close>

definition leakyDeps :: deps where
  "leakyDeps =
     toyDeps\<lparr>EvmExecute := (\<lambda>c p s.
       ((Some \<lparr>Receipts = [], Logs = [], GasUsed = 0\<rparr>,
         if Root (Header (Block p)) = originalRoot (PreState p) then None
         else Some (Errorf ''invalid merkle root'' [])), s))\<rparr>"

text \<open>Block 2, its parent (number 1, so hash 1) and a header that is not its parent.\<close>

definition toyBlock :: block where
  "toyBlock = \<lparr>Header = \<lparr>ParentHash = 1, Root = 5, Number = 2, Extra = []\<rparr>, Transactions = []\<rparr>"

definition toyParent :: header where
  "toyParent = \<lparr>ParentHash = 0, Root = 5, Number = 1, Extra = []\<rparr>"

definition toyStranger :: header where
  "toyStranger = \<lparr>ParentHash = 0, Root = 5, Number = 7, Extra = []\<rparr>"

definition toyInput :: "int option \<Rightarrow> header option list \<Rightarrow> bytes list \<Rightarrow> proverInput" where
  "toyInput chainId ancestors nodes =
     \<lparr>ChainConfig = \<lparr>ChainID = chainId\<rparr>, Blocks = [toyBlock],
      Witness = \<lparr>Ancestors = ancestors, Codes = [], State = nodes\<rparr>\<rparr>"

definition emptyWorld :: world where
  "emptyWorld = \<lparr>dbs = [], trace = []\<rparr>"

subsection \<open>What each function does to the world\<close>

text \<open>
  The copying loops return the list they were given. Each function of the file is then
  rewritten on a world whose last database is the one of the call, with the events it adds
  written out.
\<close>

lemma copy_loop: "foldl (\<lambda>acc x. acc @ [x]) ys xs = ys @ xs"
  by (induction xs arbitrary: ys) auto

lemma prepareContext_eq:
  "prepareContext d c inputs w =
     (let a = length (dbs w);
          (err, s) = NewChain d (ChainConfig inputs) [];
          w3 = \<lparr>dbs = dbs w @ [s], trace = trace w @ [LogDebug ''Prepare context...'', DbCreated a, NewChainCalled a]\<rparr>
      in case err of
           Some e \<Rightarrow> (Inl (Errorf ''failed to create chain: %v'' [ErrArg e]), w3)
         | None \<Rightarrow> (Inr \<lparr>ctx = c, stateDB = a, hc = \<lparr>hcConfig = ChainConfig inputs\<rparr>\<rparr>, w3))"
  by (cases w) (simp add: prepareContext_def NewMemoryDatabase_def emit_def readDb_def writeDb_def Let_def split_def split: option.splits)

lemma preparePreState_eq:
  "stateDB ectx = length xs \<Longrightarrow>
   preparePreState d ectx inputs \<lparr>dbs = xs @ [s], trace = t\<rparr> =
     (case WriteHeaders d s (Ancestors (Witness inputs)) of
        None \<Rightarrow> (Panicked, \<lparr>dbs = xs @ [s], trace = t @ [LogInfo ''Prepare pre-state...'']\<rparr>)
      | Some s1 \<Rightarrow>
          (Returned (),
           \<lparr>dbs = xs @ [WriteNodesToHashDB d (WriteCodes d s1 (Codes (Witness inputs))) (State (Witness inputs))],
            trace = t @ [LogInfo ''Prepare pre-state...'', HeadersWritten (length xs), CodesWritten (length xs),
                         NodesWritten (length xs)]\<rparr>))"
  by (simp add: preparePreState_def emit_def readDb_def writeDb_def Let_def copy_loop split: option.splits)

lemma prepareExecParams_eq:
  "stateDB ectx = length xs \<Longrightarrow>
   prepareExecParams d ectx inputs \<lparr>dbs = xs @ [s], trace = t\<rparr> =
     (if Blocks inputs = [] then (Inl (Errorf ''no blocks provided'' []), \<lparr>dbs = xs @ [s], trace = t\<rparr>)
      else let w1 = \<lparr>dbs = xs @ [s], trace = t @ [LogDebug ''Prepare execution parameters...'']\<rparr> in
        case Ancestors (Witness inputs) of
          [] \<Rightarrow> (Inl (Errorf ''no ancestors provided'' []), w1)
        | None # _ \<Rightarrow> (Inl (Errorf ''first ancestor must be the parent of the first block'' []), w1)
        | Some p # _ \<Rightarrow>
            if HeaderHash d p = HeaderHash d (Header (hd (Blocks inputs)))
            then (Inl (Errorf ''first ancestor must be the parent of the first block'' []), w1)
            else let w2 = \<lparr>dbs = xs @ [s], trace = t @ [LogDebug ''Prepare execution parameters...'',
                                                         StateNewCalled (Root p) (length xs)]\<rparr> in
              case StateNew d (Root p) s of
                Some e \<Rightarrow> (Inl (Errorf ''failed to create pre-state from parent root %v: %v''
                                  [HashArg (Root p), ErrArg e]), w2)
              | None \<Rightarrow> (Inr \<lparr>VMConfig = \<lparr>StatelessSelfValidation = True\<rparr>,
                               Block = BlockOf d (hd (Blocks inputs)),
                               Validate = True,
                               Chain = hc ectx,
                               PreState = \<lparr>originalRoot = Root p\<rparr>\<rparr>, w2))"
  by (simp add: prepareExecParams_def emit_def readDb_def Let_def hd_conv_nth split: list.splits option.splits)

lemma execEVM_eq:
  "stateDB ectx = length xs \<Longrightarrow>
   execEVM d ectx params \<lparr>dbs = xs @ [s], trace = t\<rparr> =
     (case EvmExecute d (ctx ectx) params s of
        ((res, err), s') \<Rightarrow>
          ((res, case err of None \<Rightarrow> None
                 | Some e \<Rightarrow> Some (Errorf ''failed to execute block: %v'' [ErrArg e])),
           \<lparr>dbs = xs @ [s'], trace = t @ [LogInfo ''Execute EVM...'', EngineRun params]\<rparr>))"
  by (simp add: execEVM_def emit_def readDb_def writeDb_def Let_def split_def split: option.splits)

lemma Execute_unfold:
  "Blocks inputs \<noteq> [] \<Longrightarrow>
   Execute d c inputs w =
     (case execute d (taggedContext d c inputs) inputs w of
        (Panicked, w1) \<Rightarrow> (Panicked, w1)
      | (Returned (res, err), w1) \<Rightarrow>
          (Returned (res, err),
           emit (case err of Some e \<Rightarrow> LogError ''Provable execution failed'' e
                 | None \<Rightarrow> LogInfo ''Provable execution succeeded'') w1))"
  by (simp add: Execute_def taggedContext_def WithComponent_def WithTags_def Let_def
           split: prod.splits run.splits option.splits)


lemma execute_eq:
  "execute d c inputs w =
     (let a = length (dbs w);
          t0 = trace w @ [LogInfo ''Process provable execution...'', LogDebug ''Prepare context...'',
                          DbCreated a, NewChainCalled a]
      in case NewChain d (ChainConfig inputs) [] of
           (Some e, s) \<Rightarrow>
             (Returned (None, Some (Errorf ''failed to prepare execution context: %v''
                                      [ErrArg (Errorf ''failed to create chain: %v'' [ErrArg e])])),
              \<lparr>dbs = dbs w @ [s], trace = t0\<rparr>)
         | (None, s0) \<Rightarrow>
             (case WriteHeaders d s0 (Ancestors (Witness inputs)) of
                None \<Rightarrow> (Panicked, \<lparr>dbs = dbs w @ [s0], trace = t0 @ [LogInfo ''Prepare pre-state...'']\<rparr>)
              | Some s1 \<Rightarrow>
                  (let ectx = \<lparr>ctx = c, stateDB = a, hc = \<lparr>hcConfig = ChainConfig inputs\<rparr>\<rparr>;
                       s3 = WriteNodesToHashDB d (WriteCodes d s1 (Codes (Witness inputs))) (State (Witness inputs));
                       w2 = \<lparr>dbs = dbs w @ [s3],
                             trace = t0 @ [LogInfo ''Prepare pre-state...'', HeadersWritten a, CodesWritten a,
                                           NodesWritten a]\<rparr>
                   in case prepareExecParams d ectx inputs w2 of
                        (Inl err, w3) \<Rightarrow>
                          (Returned (None, Some (Errorf ''failed to prepare execution exec params: %v'' [ErrArg err])), w3)
                      | (Inr params, w3) \<Rightarrow>
                          (case execEVM d ectx params w3 of (r, w4) \<Rightarrow> (Returned r, w4)))))"
  by (simp add: execute_def prepareContext_eq preparePreState_eq emit_def Let_def
           split: prod.splits option.splits)

text \<open>
  \<open>loadedStore\<close> is \<open>Some s\<close> exactly when \<open>prepareContext\<close> succeeds and \<open>preparePreState\<close>
  returns, and \<open>s\<close> is then what the database of the call holds; \<open>builtContext\<close> is the
  executor context \<open>execute\<close> works with.
\<close>

lemma loadedStore_stages:
  "loadedStore d inputs = Some s \<longleftrightarrow>
     (\<exists>ectx w1 w2. prepareContext d c inputs w = (Inr ectx, w1)
        \<and> preparePreState d ectx inputs w1 = (Returned (), w2)
        \<and> readDb w2 (stateDB ectx) = s)"
  by (auto simp add: loadedStore_def prepareContext_eq preparePreState_eq readDb_def Let_def
        split: prod.splits option.splits)

lemma builtContext_stage:
  "fst (prepareContext d (taggedContext d c inputs) inputs
          (emit (LogInfo ''Process provable execution...'') w)) = Inr ectx
   \<Longrightarrow> ectx = builtContext d c inputs w"
  by (auto simp add: prepareContext_eq builtContext_def emit_def Let_def
        split: prod.splits option.splits)

text \<open>The blocks after the first are read by no stage.\<close>

lemma prepareContext_later_blocks:
  "prepareContext d c (inputs\<lparr>Blocks := b # bs\<rparr>) w = prepareContext d c (inputs\<lparr>Blocks := b # bs'\<rparr>) w"
  by (simp add: prepareContext_def Let_def split_def)

lemma preparePreState_later_blocks:
  "preparePreState d ectx (inputs\<lparr>Blocks := b # bs\<rparr>) w =
   preparePreState d ectx (inputs\<lparr>Blocks := b # bs'\<rparr>) w"
  by (simp add: preparePreState_def Let_def cong: option.case_cong)

lemma prepareExecParams_later_blocks:
  "prepareExecParams d ectx (inputs\<lparr>Blocks := b # bs\<rparr>) w =
   prepareExecParams d ectx (inputs\<lparr>Blocks := b # bs'\<rparr>) w"
  by (simp add: prepareExecParams_def Let_def cong: option.case_cong if_cong)

lemma execute_later_blocks:
  "execute d c (inputs\<lparr>Blocks := b # bs\<rparr>) w = execute d c (inputs\<lparr>Blocks := b # bs'\<rparr>) w"
  unfolding execute_def
  by (simp only: prepareContext_later_blocks [where bs = bs and bs' = bs']
        preparePreState_later_blocks [where bs = bs and bs' = bs']
        prepareExecParams_later_blocks [where bs = bs and bs' = bs'])

lemma execute_world_independent:
  "fst (execute d c inputs w) = fst (execute d c inputs w')"
  by (simp add: execute_eq prepareExecParams_eq execEVM_eq Let_def
        split: prod.splits option.splits list.splits)

lemma Execute_world_independent:
  "fst (Execute d c inputs w) = fst (Execute d c inputs w')"
proof (cases "Blocks inputs = []")
  case True
  then show ?thesis by (simp add: Execute_def)
next
  case False
  obtain r w1 where r: "execute d (taggedContext d c inputs) inputs w = (r, w1)"
    by (cases "execute d (taggedContext d c inputs) inputs w")
  obtain r' w1' where r': "execute d (taggedContext d c inputs) inputs w' = (r', w1')"
    by (cases "execute d (taggedContext d c inputs) inputs w'")
  have "r = r'"
    using execute_world_independent [of d "taggedContext d c inputs" inputs w w'] r r' by simp
  with False r r' show ?thesis
    by (simp add: Execute_unfold split: run.splits prod.splits)
qed

lemma execute_keeps_databases:
  "take (length (dbs w)) (dbs (snd (execute d c inputs w))) = dbs w"
  by (simp add: execute_eq prepareExecParams_eq execEVM_eq Let_def
        split: prod.splits option.splits list.splits)

lemma Execute_keeps_databases:
  "take (length (dbs w)) (dbs (snd (Execute d c inputs w))) = dbs w"
proof (cases "Blocks inputs = []")
  case True
  then show ?thesis by (simp add: Execute_def)
next
  case False
  obtain r w1 where r: "execute d (taggedContext d c inputs) inputs w = (r, w1)"
    by (cases "execute d (taggedContext d c inputs) inputs w")
  have "take (length (dbs w)) (dbs w1) = dbs w"
    using execute_keeps_databases [of w d "taggedContext d c inputs" inputs] r by simp
  with False r show ?thesis
    by (simp add: Execute_unfold emit_def split: run.splits prod.splits)
qed

text \<open>The instances, the example inputs and the stores the examples load.\<close>

lemmas toy_defs = toyDeps_def leakyDeps_def toyInput_def toyBlock_def toyParent_def
  toyStranger_def emptyWorld_def

text \<open>The definitions of the file, to run it on a concrete input.\<close>

lemmas run_defs = Execute_def execute_def prepareContext_def preparePreState_def
  prepareExecParams_def execEVM_def NewMemoryDatabase_def emit_def readDb_def writeDb_def
  WithComponent_def WithTags_def Let_def split_def copy_loop

subsection \<open>Empty block list\<close>

text \<open>
  C2. With an empty block list \<open>Execute\<close> returns no result and the error
  "no blocks provided" at once: the world it returns is the world it was given, so no database
  has been created or written and nothing has been logged.
\<close>

theorem Execute_no_blocks:
  "Execute d c (inputs\<lparr>Blocks := []\<rparr>) w = (Returned (None, Some (Errorf ''no blocks provided'' [])), w)"
  by (simp add: Execute_def)

subsection \<open>The linkage check\<close>

text \<open>
  C1. The claim is that a first ancestor whose hash differs from the parent hash declared by
  the first block is rejected with the linkage error. The file compares the hash of the
  ancestor with the hash of the block itself, and never reads \<open>ParentHash\<close>. On the example
  below the ancestor is not the parent of the block (its hash is 7, the block declares the
  parent hash 1), its hash differs from the hash of the block, and \<open>Execute\<close> runs the engine
  and returns its result without any error.
\<close>

theorem Execute_accepts_unlinked_ancestor:
  "HeaderHash toyDeps toyStranger \<noteq> ParentHash (Header toyBlock)
   \<and> fst (Execute toyDeps [] (toyInput (Some 1) [Some toyStranger] [[5]]) emptyWorld) =
       Returned (Some \<lparr>Receipts = [], Logs = [], GasUsed = 0\<rparr>, None)"
  by (simp add: run_defs toy_defs)

subsection \<open>Empty ancestor list\<close>

text \<open>
  With one block and no ancestor the error is "no ancestors provided", but it comes after the
  database has been created, handed to the chain constructor and filled with the witness: the
  world returned holds the new database with the node blob in it.
\<close>

theorem no_ancestors_after_database_work:
  "Execute toyDeps [] (toyInput (Some 1) [] [[5]]) emptyWorld =
     (Returned (None, Some (Errorf ''failed to prepare execution exec params: %v''
                              [ErrArg (Errorf ''no ancestors provided'' [])])),
      \<lparr>dbs = [[([5], [5])]],
       trace =
         [LogInfo ''Process provable execution...'', LogDebug ''Prepare context...'',
          DbCreated 0, NewChainCalled 0,
          LogInfo ''Prepare pre-state...'', HeadersWritten 0, CodesWritten 0, NodesWritten 0,
          LogDebug ''Prepare execution parameters...'',
          LogError ''Provable execution failed''
            (Errorf ''failed to prepare execution exec params: %v''
               [ErrArg (Errorf ''no ancestors provided'' [])])]\<rparr>)"
  by (simp add: run_defs toy_defs)

text \<open>
  C3, amended. For a non-empty block list and an empty ancestor list, when the chain has been
  built and the witness loaded (\<open>loadedStore\<close> is \<open>Some s\<close>), \<open>Execute\<close> returns no result
  and the error "no ancestors provided" wrapped with the message of the parameter stage. The
  check comes after the database has been created and filled, and before the pre-state is
  opened and the engine run: the events added are exactly the ten listed, and the new database
  holds \<open>s\<close>.
\<close>

theorem Execute_no_ancestors:
  assumes "Blocks inputs \<noteq> []" and "Ancestors (Witness inputs) = []"
    and "loadedStore d inputs = Some s"
  shows "Execute d c inputs w =
           (Returned (None, Some (Errorf ''failed to prepare execution exec params: %v''
                                    [ErrArg (Errorf ''no ancestors provided'' [])])),
            \<lparr>dbs = dbs w @ [s],
             trace = trace w @
               [LogInfo ''Process provable execution...'', LogDebug ''Prepare context...'',
                DbCreated (length (dbs w)), NewChainCalled (length (dbs w)),
                LogInfo ''Prepare pre-state...'', HeadersWritten (length (dbs w)),
                CodesWritten (length (dbs w)), NodesWritten (length (dbs w)),
                LogDebug ''Prepare execution parameters...'',
                LogError ''Provable execution failed''
                  (Errorf ''failed to prepare execution exec params: %v''
                     [ErrArg (Errorf ''no ancestors provided'' [])])]\<rparr>)"
  using assms
  by (auto simp add: Execute_unfold execute_eq prepareExecParams_eq loadedStore_def emit_def Let_def
        split: prod.splits option.splits)

theorem Execute_no_ancestors_witness:
  "Blocks (toyInput (Some 1) [] [[5]]) \<noteq> []
   \<and> Ancestors (Witness (toyInput (Some 1) [] [[5]])) = []
   \<and> loadedStore toyDeps (toyInput (Some 1) [] [[5]]) = Some [([5], [5])]
   \<and> fst (Execute toyDeps [Component ''cli''] (toyInput (Some 1) [] [[5]]) emptyWorld) =
       Returned (None, Some (Errorf ''failed to prepare execution exec params: %v''
                               [ErrArg (Errorf ''no ancestors provided'' [])]))"
proof -
  have h1: "Blocks (toyInput (Some 1) [] [[5]]) \<noteq> []"
    by (simp add: toy_defs)
  have h2: "Ancestors (Witness (toyInput (Some 1) [] [[5]])) = []"
    by (simp add: toy_defs)
  have h3: "loadedStore toyDeps (toyInput (Some 1) [] [[5]]) = Some [([5], [5])]"
    by (simp add: loadedStore_def toy_defs)
  from Execute_no_ancestors [OF h1 h2 h3, of "[Component ''cli'']" emptyWorld] h1 h2 h3
  show ?thesis by simp
qed

subsection \<open>Opening the pre-state\<close>

text \<open>
  C4. Take an input with a block, whose first ancestor \<open>p\<close> is not nil and passes the check of
  the file (its hash is not the hash of the first block), and for which the chain has been
  built and the witness loaded into the store \<open>s\<close>. Then the pre-state is opened at the state
  root of \<open>p\<close> on the database of the call. If opening it on \<open>s\<close> fails with \<open>e\<close>, \<open>Execute\<close>
  returns no result and the error "failed to create pre-state from parent root", which carries
  the root of \<open>p\<close> and \<open>e\<close>, wrapped with the message of the parameter stage; the events added
  end with the opening and the error log, so the engine has not run.
\<close>

theorem Execute_prestate_failure:
  assumes "Blocks inputs \<noteq> []" and "Ancestors (Witness inputs) = Some p # rest"
    and "HeaderHash d p \<noteq> HeaderHash d (Header (hd (Blocks inputs)))"
    and "loadedStore d inputs = Some s"
  shows "StateNewCalled (Root p) (length (dbs w)) \<in> set (newEvents w (snd (Execute d c inputs w)))
       \<and> (StateNew d (Root p) s = Some e \<longrightarrow>
           Execute d c inputs w =
             (Returned (None, Some (Errorf ''failed to prepare execution exec params: %v''
                [ErrArg (Errorf ''failed to create pre-state from parent root %v: %v''
                           [HashArg (Root p), ErrArg e])])),
              \<lparr>dbs = dbs w @ [s],
               trace = trace w @
                 [LogInfo ''Process provable execution...'', LogDebug ''Prepare context...'',
                  DbCreated (length (dbs w)), NewChainCalled (length (dbs w)),
                  LogInfo ''Prepare pre-state...'', HeadersWritten (length (dbs w)),
                  CodesWritten (length (dbs w)), NodesWritten (length (dbs w)),
                  LogDebug ''Prepare execution parameters...'',
                  StateNewCalled (Root p) (length (dbs w)),
                  LogError ''Provable execution failed''
                    (Errorf ''failed to prepare execution exec params: %v''
                       [ErrArg (Errorf ''failed to create pre-state from parent root %v: %v''
                                  [HashArg (Root p), ErrArg e])])]\<rparr>))"
  using assms
  by (auto simp add: Execute_unfold execute_eq prepareExecParams_eq execEVM_eq loadedStore_def emit_def
        newEvents_def Let_def
        split: prod.splits option.splits)

theorem Execute_prestate_failure_witness:
  "Blocks (toyInput (Some 1) [Some toyParent] []) \<noteq> []
   \<and> HeaderHash toyDeps toyParent \<noteq> HeaderHash toyDeps (Header (hd (Blocks (toyInput (Some 1) [Some toyParent] []))))
   \<and> loadedStore toyDeps (toyInput (Some 1) [Some toyParent] []) = Some [([0x68, 1], [])]
   \<and> StateNew toyDeps (Root toyParent) [([0x68, 1], [])] = Some (Errorf ''missing trie node'' [HashArg 5])
   \<and> StateNewCalled 5 0 \<in>
       set (newEvents emptyWorld (snd (Execute toyDeps [] (toyInput (Some 1) [Some toyParent] []) emptyWorld)))
   \<and> fst (Execute toyDeps [] (toyInput (Some 1) [Some toyParent] []) emptyWorld) =
       Returned (None, Some (Errorf ''failed to prepare execution exec params: %v''
         [ErrArg (Errorf ''failed to create pre-state from parent root %v: %v''
                    [HashArg 5, ErrArg (Errorf ''missing trie node'' [HashArg 5])])]))"
proof -
  have h1: "Blocks (toyInput (Some 1) [Some toyParent] []) \<noteq> []"
    by (simp add: toy_defs)
  have h2: "Ancestors (Witness (toyInput (Some 1) [Some toyParent] [])) = Some toyParent # []"
    by (simp add: toy_defs)
  have h3: "HeaderHash toyDeps toyParent \<noteq>
              HeaderHash toyDeps (Header (hd (Blocks (toyInput (Some 1) [Some toyParent] []))))"
    by (simp add: toy_defs)
  have h4: "loadedStore toyDeps (toyInput (Some 1) [Some toyParent] []) = Some [([0x68, 1], [])]"
    by (simp add: loadedStore_def toy_defs)
  have h5: "StateNew toyDeps (Root toyParent) [([0x68, 1], [])] =
              Some (Errorf ''missing trie node'' [HashArg 5])"
    by (simp add: toy_defs)
  have r: "Root toyParent = 5" "dbs emptyWorld = []"
    by (simp_all add: toy_defs)
  from Execute_prestate_failure [OF h1 h2 h3 h4, of emptyWorld "[]"
         "Errorf ''missing trie node'' [HashArg 5]"] h1 h3 h4 h5 r
  show ?thesis by (simp add: newEvents_def emptyWorld_def)
qed

subsection \<open>The parameters of the engine\<close>

text \<open>
  C5. When the preparation of the parameters succeeds (a block, a first ancestor \<open>p\<close> that
  passes the check of the file, the chain built, the witness loaded into \<open>s\<close>, and the
  pre-state opened on \<open>s\<close> at the root of \<open>p\<close>), the engine is run once, on the tagged
  context, the store \<open>s\<close> and the parameters made of the first block, the chain of the
  configuration of the input, the pre-state at the state root of \<open>p\<close>, \<open>Validate\<close> true and
  \<open>StatelessSelfValidation\<close> true. \<open>Execute\<close> returns what the engine returns, its error
  wrapped, and the event of the run carries these parameters.
\<close>

theorem Execute_hands_bundle_to_engine:
  assumes "Blocks inputs \<noteq> []" and "Ancestors (Witness inputs) = Some p # rest"
    and "HeaderHash d p \<noteq> HeaderHash d (Header (Blocks inputs ! 0))"
    and "loadedStore d inputs = Some s" and "StateNew d (Root p) s = None"
  shows "Execute d c inputs w =
           (let params = \<lparr>VMConfig = \<lparr>StatelessSelfValidation = True\<rparr>,
                          Block = BlockOf d (Blocks inputs ! 0),
                          Validate = True,
                          Chain = \<lparr>hcConfig = ChainConfig inputs\<rparr>,
                          PreState = \<lparr>originalRoot = Root p\<rparr>\<rparr>;
                ((res, err), s') = EvmExecute d (taggedContext d c inputs) params s;
                err' = map_option (\<lambda>e. Errorf ''failed to execute block: %v'' [ErrArg e]) err
            in (Returned (res, err'),
                \<lparr>dbs = dbs w @ [s'],
                 trace = trace w @
                   [LogInfo ''Process provable execution...'', LogDebug ''Prepare context...'',
                    DbCreated (length (dbs w)), NewChainCalled (length (dbs w)),
                    LogInfo ''Prepare pre-state...'', HeadersWritten (length (dbs w)),
                    CodesWritten (length (dbs w)), NodesWritten (length (dbs w)),
                    LogDebug ''Prepare execution parameters...'',
                    StateNewCalled (Root p) (length (dbs w)),
                    LogInfo ''Execute EVM...'',
                    EngineRun params,
                    (case err' of
                       None \<Rightarrow> LogInfo ''Provable execution succeeded''
                     | Some e \<Rightarrow> LogError ''Provable execution failed'' e)]\<rparr>))"
  using assms
  by (auto simp add: Execute_unfold execute_eq prepareExecParams_eq execEVM_eq loadedStore_def emit_def
        Let_def hd_conv_nth
        split: prod.splits option.splits)

theorem Execute_hands_bundle_to_engine_witness:
  "Blocks (toyInput (Some 1) [Some toyParent] [[5]]) \<noteq> []
   \<and> HeaderHash toyDeps toyParent \<noteq> HeaderHash toyDeps (Header (Blocks (toyInput (Some 1) [Some toyParent] [[5]]) ! 0))
   \<and> loadedStore toyDeps (toyInput (Some 1) [Some toyParent] [[5]]) = Some [([0x68, 1], []), ([5], [5])]
   \<and> StateNew toyDeps (Root toyParent) [([0x68, 1], []), ([5], [5])] = None
   \<and> Execute toyDeps [] (toyInput (Some 1) [Some toyParent] [[5]]) emptyWorld =
       (Returned (Some \<lparr>Receipts = [], Logs = [], GasUsed = 0\<rparr>, None),
        \<lparr>dbs = [[([0x68, 1], []), ([5], [5])]],
         trace =
           [LogInfo ''Process provable execution...'', LogDebug ''Prepare context...'',
            DbCreated 0, NewChainCalled 0,
            LogInfo ''Prepare pre-state...'', HeadersWritten 0, CodesWritten 0, NodesWritten 0,
            LogDebug ''Prepare execution parameters...'',
            StateNewCalled 5 0,
            LogInfo ''Execute EVM...'',
            EngineRun \<lparr>VMConfig = \<lparr>StatelessSelfValidation = True\<rparr>,
                       Block = toyBlock,
                       Validate = True,
                       Chain = \<lparr>hcConfig = \<lparr>ChainID = Some 1\<rparr>\<rparr>,
                       PreState = \<lparr>originalRoot = 5\<rparr>\<rparr>,
            LogInfo ''Provable execution succeeded'']\<rparr>)"
proof -
  have h1: "Blocks (toyInput (Some 1) [Some toyParent] [[5]]) \<noteq> []"
    by (simp add: toy_defs)
  have h2: "Ancestors (Witness (toyInput (Some 1) [Some toyParent] [[5]])) = Some toyParent # []"
    by (simp add: toy_defs)
  have h3: "HeaderHash toyDeps toyParent \<noteq>
              HeaderHash toyDeps (Header (Blocks (toyInput (Some 1) [Some toyParent] [[5]]) ! 0))"
    by (simp add: toy_defs)
  have h4: "loadedStore toyDeps (toyInput (Some 1) [Some toyParent] [[5]]) =
              Some [([0x68, 1], []), ([5], [5])]"
    by (simp add: loadedStore_def toy_defs)
  have h5: "StateNew toyDeps (Root toyParent) [([0x68, 1], []), ([5], [5])] = None"
    by (simp add: toy_defs)
  from Execute_hands_bundle_to_engine [OF h1 h2 h3 h4 h5, of "[]" emptyWorld] h1 h3 h4 h5
  show ?thesis by (simp add: toy_defs taggedContext_def)
qed

subsection \<open>Result or error\<close>



text \<open>
  When the engine keeps its contract (\<open>driverContract\<close>) and the header writer returns, this
  is a result and no error, or an error and no result.
\<close>

corollary Execute_result_or_error_under_contract:
  assumes "driverContract d"
    and "WriteHeaders d (snd (NewChain d (ChainConfig inputs) [])) (Ancestors (Witness inputs)) \<noteq> None"
  shows "\<exists>res err. fst (Execute d c inputs w) = Returned (res, err) \<and> (res = None) \<noteq> (err = None)"
proof (cases "Blocks inputs = []")
  case True
  then show ?thesis by (simp add: Execute_def)
next
  case False
  have engine: "\<And>c p s r e s'. EvmExecute d c p s = ((r, e), s') \<Longrightarrow> (r = None) \<noteq> (e = None)"
  proof -
    fix c p s r e s'
    assume "EvmExecute d c p s = ((r, e), s')"
    with assms(1) [unfolded driverContract_def, rule_format, of c p s]
    show "(r = None) \<noteq> (e = None)"
      by (cases r; cases e) simp_all
  qed
  from False assms(2) show ?thesis
    by (auto simp add: Execute_unfold execute_eq prepareExecParams_eq execEVM_eq Let_def
          split: prod.splits option.splits list.splits dest: engine)
qed

subsection \<open>A failing stage\<close>



subsection \<open>The blocks after the first\<close>

text \<open>
  C8. Two inputs with the same chain configuration, the same witness and the same first block
  give the same result, the same error and the same world, whatever blocks follow the first.
\<close>

theorem Execute_ignores_later_blocks:
  "Execute d c (inputs\<lparr>Blocks := b # bs\<rparr>) w = Execute d c (inputs\<lparr>Blocks := b # bs'\<rparr>) w"
  by (simp add: Execute_def execute_later_blocks [where bs = bs and bs' = bs'])

subsection \<open>Determinism\<close>

text \<open>
  C9. What \<open>Execute\<close> returns does not depend on the world it starts in: not on the databases
  of earlier calls, not on the trace. So a second run on the same input, in the world the
  first run left, returns what the first run returned. A run leaves the databases that
  existed before it as they were: it works on the one it allocates.
\<close>

theorem Execute_deterministic:
  "fst (Execute d c inputs w) = fst (Execute d c inputs w')
   \<and> fst (Execute d c inputs (snd (Execute d c inputs w))) = fst (Execute d c inputs w)
   \<and> take (length (dbs w)) (dbs (snd (Execute d c inputs w))) = dbs w"
  using Execute_world_independent [of d c inputs w w']
    Execute_world_independent [of d c inputs "snd (Execute d c inputs w)" w]
    Execute_keeps_databases [of w d c inputs]
  by simp

subsection \<open>A nil first ancestor\<close>

text \<open>
  The check of \<open>prepareExecParams\<close> itself rejects a nil first ancestor with the linkage
  error, without reading the header.
\<close>

lemma prepareExecParams_nil_ancestor:
  assumes "Blocks inputs \<noteq> []" and "Ancestors (Witness inputs) = None # rest"
  shows "prepareExecParams d ectx inputs w =
           (Inl (Errorf ''first ancestor must be the parent of the first block'' []),
            emit (LogDebug ''Prepare execution parameters...'') w)"
  using assms by (simp add: prepareExecParams_def Let_def)



end
